theory Spec2Isabelle
  imports Complex_Main "HOL-Library.Word"
begin

section \<open>JavaScript values\<close>

text \<open>
  The handler of \<^verbatim>\<open>src/index.js\<close> works on values that come out of three JSON documents:
  the request body, the reply of the generative-language API and the text generated by the
  model. A JavaScript string is a sequence of UTF-16 code units. A finite number is a
  rational (every finite double is one); the non-finite numbers cannot come out of JSON.
  An object is the list of its own properties, read by the first entry of a key.
\<close>

type_synonym jsstring = "16 word list"

definition js :: "string \<Rightarrow> jsstring" where
  "js s = map of_char s"

datatype jsval =
    JUndefined
  | JNull
  | JBool bool
  | JNum rat
  | JStr jsstring
  | JArr "jsval list"
  | JObj "(jsstring \<times> jsval) list"

datatype exn = TypeError | FetchError

text \<open>\<^verbatim>\<open>!v\<close> is \<open>\<not> truthy v\<close>.\<close>

fun truthy :: "jsval \<Rightarrow> bool" where
  "truthy JUndefined = False"
| "truthy JNull = False"
| "truthy (JBool b) = b"
| "truthy (JNum x) = (x \<noteq> 0)"
| "truthy (JStr s) = (s \<noteq> [])"
| "truthy (JArr xs) = True"
| "truthy (JObj kvs) = True"

fun nullish :: "jsval \<Rightarrow> bool" where
  "nullish JUndefined = True"
| "nullish JNull = True"
| "nullish v = False"

text \<open>
  Reading a property of a value that is neither \<^verbatim>\<open>undefined\<close> nor \<^verbatim>\<open>null\<close>. The handler reads
  only the names \<^verbatim>\<open>germanWord\<close>, \<^verbatim>\<open>candidates\<close>, \<^verbatim>\<open>content\<close>, \<^verbatim>\<open>parts\<close>, \<^verbatim>\<open>text\<close>, \<^verbatim>\<open>details\<close> and
  \<^verbatim>\<open>englishTranslation\<close>, none of which a prototype defines, so only an object can have them.
\<close>

fun get_prop :: "jsval \<Rightarrow> jsstring \<Rightarrow> jsval" where
  "get_prop (JObj kvs) k = (case map_of kvs k of Some v \<Rightarrow> v | None \<Rightarrow> JUndefined)"
| "get_prop v k = JUndefined"

text \<open>\<^verbatim>\<open>v[0]\<close> on a value that is neither \<^verbatim>\<open>undefined\<close> nor \<^verbatim>\<open>null\<close>.\<close>

fun get_index0 :: "jsval \<Rightarrow> jsval" where
  "get_index0 (JArr xs) = (case xs of [] \<Rightarrow> JUndefined | x # _ \<Rightarrow> x)"
| "get_index0 (JStr s) = (case s of [] \<Rightarrow> JUndefined | c # _ \<Rightarrow> JStr [c])"
| "get_index0 (JObj kvs) = get_prop (JObj kvs) (js ''0'')"
| "get_index0 v = JUndefined"

text \<open>\<^verbatim>\<open>v.k\<close> and \<^verbatim>\<open>v[0]\<close> throw a TypeError on \<^verbatim>\<open>undefined\<close> and \<^verbatim>\<open>null\<close>.\<close>

definition member :: "jsval \<Rightarrow> jsstring \<Rightarrow> exn + jsval" where
  "member v k = (if nullish v then Inl TypeError else Inr (get_prop v k))"

definition index0 :: "jsval \<Rightarrow> exn + jsval" where
  "index0 v = (if nullish v then Inl TypeError else Inr (get_index0 v))"

text \<open>\<^verbatim>\<open>v?.k\<close> and \<^verbatim>\<open>v?.[0]\<close> give \<^verbatim>\<open>undefined\<close> there.\<close>

definition opt_member :: "jsval \<Rightarrow> jsstring \<Rightarrow> jsval" where
  "opt_member v k = (if nullish v then JUndefined else get_prop v k)"

definition opt_index0 :: "jsval \<Rightarrow> jsval" where
  "opt_index0 v = (if nullish v then JUndefined else get_index0 v)"

definition and_then :: "exn + 'a \<Rightarrow> ('a \<Rightarrow> exn + 'b) \<Rightarrow> exn + 'b" where
  "and_then m f = (case m of Inl x \<Rightarrow> Inl x | Inr v \<Rightarrow> f v)"

subsection \<open>String.prototype.trim\<close>

text \<open>The code units of WhiteSpace and LineTerminator of ECMAScript.\<close>

definition WhiteSpace :: "16 word \<Rightarrow> bool" where
  "WhiteSpace c \<longleftrightarrow>
     c = 0x9 \<or> c = 0xA \<or> c = 0xB \<or> c = 0xC \<or> c = 0xD \<or> c = 0x20 \<or> c = 0xA0 \<or>
     c = 0x1680 \<or> (0x2000 \<le> c \<and> c \<le> 0x200A) \<or> c = 0x2028 \<or> c = 0x2029 \<or>
     c = 0x202F \<or> c = 0x205F \<or> c = 0x3000 \<or> c = 0xFEFF"

definition trim :: "jsstring \<Rightarrow> jsstring" where
  "trim s = rev (dropWhile WhiteSpace (rev (dropWhile WhiteSpace s)))"

text \<open>
  \<^verbatim>\<open>v.trim()\<close>: only a string has a callable \<^verbatim>\<open>trim\<close>; on a number, a boolean, an array or
  an object out of JSON the property is missing or not a function, and the call throws.
\<close>

fun call_trim :: "jsval \<Rightarrow> exn + jsval" where
  "call_trim (JStr s) = Inr (JStr (trim s))"
| "call_trim v = Inl TypeError"

section \<open>The environment of the handler\<close>

record request =
  req_body :: jsval

record response =
  res_status :: nat
  res_json :: jsval

record fetch_request =
  rq_url :: jsstring
  rq_method :: jsstring
  rq_headers :: "(jsstring \<times> jsstring) list"
  rq_body :: jsstring

text \<open>A reply of the external API; its body is \<open>None\<close> when reading the stream fails.\<close>

record reply =
  reply_status :: nat
  reply_body :: "jsstring option"

datatype fetch_outcome = Rejected | Replied reply

text \<open>
  What the handler takes from outside: the credential of \<^verbatim>\<open>process.env\<close>, the external
  API behind \<^verbatim>\<open>fetch\<close>, and the built-ins \<^verbatim>\<open>JSON.parse\<close> (\<open>None\<close> for a SyntaxError),
  \<^verbatim>\<open>JSON.stringify\<close> and the conversion of a number to a string. Every theorem below holds
  for any of them.
\<close>

record env =
  GEMINI_API_KEY :: "jsstring option"
  fetch :: "fetch_request \<Rightarrow> fetch_outcome"
  JSON_parse :: "jsstring \<Rightarrow> jsval option"
  JSON_stringify :: "jsval \<Rightarrow> jsstring"
  Number_toString :: "rat \<Rightarrow> jsstring"

subsection \<open>ToString, as a template literal and JSON.parse apply it\<close>

text \<open>
  An array is joined with commas, \<^verbatim>\<open>undefined\<close> and \<^verbatim>\<open>null\<close> elements giving the empty
  string. An object gives \<^verbatim>\<open>[object Object]\<close>, unless it has an own property \<^verbatim>\<open>toString\<close>:
  out of JSON that is never a function, and the conversion throws.
\<close>

fun ToString :: "'a env_scheme \<Rightarrow> jsval \<Rightarrow> exn + jsstring"
  and join :: "'a env_scheme \<Rightarrow> jsval list \<Rightarrow> exn + jsstring" where
  "ToString e JUndefined = Inr (js ''undefined'')"
| "ToString e JNull = Inr (js ''null'')"
| "ToString e (JBool b) = Inr (if b then js ''true'' else js ''false'')"
| "ToString e (JNum x) = Inr (Number_toString e x)"
| "ToString e (JStr s) = Inr s"
| "ToString e (JArr xs) = join e xs"
| "ToString e (JObj kvs) =
     (if map_of kvs (js ''toString'') \<noteq> None then Inl TypeError
      else Inr (js ''[object Object]''))"
| "join e [] = Inr []"
| "join e [x] = (if nullish x then Inr [] else ToString e x)"
| "join e (x # y # ys) =
     and_then (if nullish x then Inr [] else ToString e x) (\<lambda>a.
     and_then (join e (y # ys)) (\<lambda>b. Inr (a @ js '','' @ b)))"

section \<open>The handler of POST /translate\<close>

text \<open>
  The model ends where the handler hands a status and a body to \<^verbatim>\<open>res.status\<close> and
  \<^verbatim>\<open>res.json\<close> (status 200 where the code sets none). Logging is left out.
\<close>

definition json_response :: "nat \<Rightarrow> jsval \<Rightarrow> response" where
  "json_response s b = \<lparr>res_status = s, res_json = b\<rparr>"

text \<open>Step 1: \<^verbatim>\<open>!germanWord || !germanWord.trim()\<close>.\<close>

definition invalid_input :: "jsval \<Rightarrow> exn + bool" where
  "invalid_input germanWord =
     (if \<not> truthy germanWord then Inr True
      else and_then (call_trim germanWord) (\<lambda>t. Inr (\<not> truthy t)))"

text \<open>Step 2: prompts and payload.\<close>

definition systemPrompt :: jsstring where
  "systemPrompt = js (''You are a specialized German-English vocabulary expert. Your task is to provide the exact English translation and the German article/gender for a given German word. If the word is a noun, you MUST include the article (der, die, or das) and the plural form in parentheses. If it is a verb, include the infinitive form and, if possible, the past participle (e.g., gehen (ging, gegangen)). Provide the response as a clean JSON object following the schema.'')"

definition userQuery :: "'a env_scheme \<Rightarrow> jsval \<Rightarrow> exn + jsstring" where
  "userQuery e germanWord =
     and_then (ToString e germanWord) (\<lambda>s. Inr (js ''German word: '' @ s))"

definition responseSchema :: jsval where
  "responseSchema = JObj
     [(js ''type'', JStr (js ''OBJECT'')),
      (js ''properties'', JObj
        [(js ''germanWord'', JObj
           [(js ''type'', JStr (js ''STRING'')),
            (js ''description'', JStr (js ''The exact German word entered, including article if applicable.''))]),
         (js ''englishTranslation'', JObj
           [(js ''type'', JStr (js ''STRING'')),
            (js ''description'', JStr (js ''The primary, most accurate English translation.''))]),
         (js ''details'', JObj
           [(js ''type'', JStr (js ''STRING'')),
            (js ''description'', JStr (js ''German grammar details (e.g., gender, plural, verb forms). Include the plural form in parentheses for nouns.''))])]),
      (js ''required'', JArr
        [JStr (js ''germanWord''), JStr (js ''englishTranslation''), JStr (js ''details'')])]"

definition payload :: "jsstring \<Rightarrow> jsval" where
  "payload uq = JObj
     [(js ''contents'', JArr [JObj [(js ''parts'', JArr [JObj [(js ''text'', JStr uq)]])]]),
      (js ''systemInstruction'', JObj
        [(js ''parts'', JArr [JObj [(js ''text'', JStr systemPrompt)]])]),
      (js ''generationConfig'', JObj
        [(js ''responseMimeType'', JStr (js ''application/json'')),
         (js ''responseSchema'', responseSchema)])]"

text \<open>Step 3: the credential, the URL and the request that \<^verbatim>\<open>fetch\<close> is given.\<close>

definition modelName :: jsstring where
  "modelName = js ''gemini-2.5-flash-preview-09-2025''"

definition apiUrl :: "jsstring \<Rightarrow> jsstring" where
  "apiUrl apiKey =
     js ''https://generativelanguage.googleapis.com/v1beta/models/'' @ modelName @
     js '':generateContent?key='' @ apiKey"

definition api_request :: "'a env_scheme \<Rightarrow> jsstring \<Rightarrow> jsstring \<Rightarrow> fetch_request" where
  "api_request e apiKey uq =
     \<lparr>rq_url = apiUrl apiKey,
      rq_method = js ''POST'',
      rq_headers = [(js ''Content-Type'', js ''application/json'')],
      rq_body = JSON_stringify e (payload uq)\<rparr>"

text \<open>
  Everything the handler does before \<^verbatim>\<open>fetch\<close>: it has finished, with a response or an
  exception, or it is about to issue the one external call.
\<close>

datatype pre_fetch = Finished "exn + response" | CallFetch fetch_request

definition before_fetch :: "'a env_scheme \<Rightarrow> request \<Rightarrow> pre_fetch" where
  "before_fetch e req =
     (case member (req_body req) (js ''germanWord'') of
        Inl x \<Rightarrow> Finished (Inl x)
      | Inr germanWord \<Rightarrow>
          (case invalid_input germanWord of
             Inl x \<Rightarrow> Finished (Inl x)
           | Inr True \<Rightarrow>
               Finished (Inr (json_response 400
                 (JObj [(js ''error'', JStr (js ''germanWord is required''))])))
           | Inr False \<Rightarrow>
               (case userQuery e germanWord of
                  Inl x \<Rightarrow> Finished (Inl x)
                | Inr uq \<Rightarrow>
                    (case GEMINI_API_KEY e of
                       None \<Rightarrow>
                         Finished (Inr (json_response 500
                           (JObj [(js ''error'', JStr (js ''Server misconfiguration: API key missing''))])))
                     | Some apiKey \<Rightarrow>
                         if apiKey = [] then
                           Finished (Inr (json_response 500
                             (JObj [(js ''error'', JStr (js ''Server misconfiguration: API key missing''))])))
                         else CallFetch (api_request e apiKey uq)))))"

text \<open>The reply: \<^verbatim>\<open>apiResponse.ok\<close> and \<^verbatim>\<open>apiResponse.json()\<close> of node-fetch.\<close>

definition ok :: "reply \<Rightarrow> bool" where
  "ok r \<longleftrightarrow> 200 \<le> reply_status r \<and> reply_status r < 300"

definition reply_json :: "'a env_scheme \<Rightarrow> reply \<Rightarrow> exn + jsval" where
  "reply_json e r =
     (case reply_body r of
        None \<Rightarrow> Inl FetchError
      | Some t \<Rightarrow> (case JSON_parse e t of None \<Rightarrow> Inl FetchError | Some v \<Rightarrow> Inr v))"

text \<open>Step 4: \<^verbatim>\<open>result.candidates?.[0]\<close>, the guard on it, and the text read again.\<close>

definition first_candidate :: "jsval \<Rightarrow> exn + jsval" where
  "first_candidate result =
     and_then (member result (js ''candidates'')) (\<lambda>cs. Inr (opt_index0 cs))"

definition invalid_structure :: "jsval \<Rightarrow> bool" where
  "invalid_structure candidate \<longleftrightarrow>
     (if \<not> truthy candidate then True
      else \<not> truthy (opt_member (opt_index0 (opt_member
             (get_prop candidate (js ''content'')) (js ''parts''))) (js ''text'')))"

definition candidate_text :: "jsval \<Rightarrow> exn + jsval" where
  "candidate_text candidate =
     and_then (member candidate (js ''content'')) (\<lambda>content.
     and_then (member content (js ''parts'')) (\<lambda>parts.
     and_then (index0 parts) (\<lambda>part.
     member part (js ''text''))))"

text \<open>The inner try: \<^verbatim>\<open>JSON.parse(jsonText)\<close>; \<open>None\<close> is its catch branch.\<close>

definition parse_text :: "'a env_scheme \<Rightarrow> jsval \<Rightarrow> jsval option" where
  "parse_text e jsonText =
     (case ToString e jsonText of Inl x \<Rightarrow> None | Inr s \<Rightarrow> JSON_parse e s)"

text \<open>Step 5: the response for the frontend.\<close>

definition build_response :: "'a env_scheme \<Rightarrow> jsval \<Rightarrow> exn + response" where
  "build_response e parsedData =
     and_then (member parsedData (js ''germanWord'')) (\<lambda>g.
     and_then (ToString e g) (\<lambda>gs.
     and_then (member parsedData (js ''details'')) (\<lambda>d.
     and_then (ToString e d) (\<lambda>ds.
     and_then (member parsedData (js ''englishTranslation'')) (\<lambda>fullEnglish.
       Inr (json_response 200 (JObj
         [(js ''german'', JStr (gs @ [0xA, 0xA] @ js ''('' @ ds @ js '')'')),
          (js ''english'', fullEnglish),
          (js ''raw'', parsedData)])))))))"

definition extract_and_build :: "'a env_scheme \<Rightarrow> jsval \<Rightarrow> exn + response" where
  "extract_and_build e result =
     and_then (first_candidate result) (\<lambda>candidate.
       if invalid_structure candidate then
         Inr (json_response 500
           (JObj [(js ''error'', JStr (js ''Invalid response from Gemini API''))]))
       else
         and_then (candidate_text candidate) (\<lambda>jsonText.
           (case parse_text e jsonText of
              None \<Rightarrow>
                Inr (json_response 500 (JObj
                  [(js ''error'', JStr (js ''Failed to parse JSON from Gemini'')),
                   (js ''raw'', jsonText)]))
            | Some parsedData \<Rightarrow> build_response e parsedData)))"

text \<open>Everything after \<^verbatim>\<open>fetch\<close> has settled.\<close>

definition after_fetch :: "'a env_scheme \<Rightarrow> fetch_outcome \<Rightarrow> exn + response" where
  "after_fetch e outcome =
     (case outcome of
        Rejected \<Rightarrow> Inl FetchError
      | Replied apiResponse \<Rightarrow>
          if \<not> ok apiResponse then
            (case reply_body apiResponse of
               None \<Rightarrow> Inl FetchError
             | Some errorText \<Rightarrow>
                 Inr (json_response (reply_status apiResponse) (JObj
                   [(js ''error'', JStr (js ''Gemini API call failed'')),
                    (js ''status'', JNum (of_nat (reply_status apiResponse))),
                    (js ''details'', JStr errorText)])))
          else and_then (reply_json e apiResponse) (extract_and_build e))"

text \<open>
  The body of the try block: the external calls it issued, and the response it returned
  or the exception it threw.
\<close>

definition translate_try :: "'a env_scheme \<Rightarrow> request \<Rightarrow> fetch_request list \<times> (exn + response)" where
  "translate_try e req =
     (case before_fetch e req of
        Finished out \<Rightarrow> ([], out)
      | CallFetch rq \<Rightarrow> ([rq], after_fetch e (fetch e rq)))"

text \<open>The handler: the try block under its catch.\<close>

definition translate :: "'a env_scheme \<Rightarrow> request \<Rightarrow> fetch_request list \<times> response" where
  "translate e req =
     (case translate_try e req of
        (calls, Inr r) \<Rightarrow> (calls, r)
      | (calls, Inl err) \<Rightarrow>
          (calls, json_response 500 (JObj [(js ''error'', JStr (js ''Internal server error''))])))"

section \<open>The words of the specification\<close>

text \<open>
  The nested generated-text field of a reply, read with a guard at each nesting level
  (\<^verbatim>\<open>candidates\<close>, its first element, \<^verbatim>\<open>content\<close>, \<^verbatim>\<open>parts\<close>, its first element, \<^verbatim>\<open>text\<close>):
  \<^verbatim>\<open>undefined\<close> at the first missing link.
\<close>

definition nested_text :: "jsval \<Rightarrow> jsval" where
  "nested_text result =
     opt_member (opt_index0 (opt_member (opt_member (opt_index0
       (opt_member result (js ''candidates''))) (js ''content'')) (js ''parts''))) (js ''text'')"

text \<open>The reply contains the field: a non-empty text is there.\<close>

definition has_generated_text :: "jsval \<Rightarrow> jsstring \<Rightarrow> bool" where
  "has_generated_text result t \<longleftrightarrow> nested_text result = JStr t \<and> t \<noteq> []"

text \<open>The reply lacks the field: it is missing at some level, or the text is empty.\<close>

definition lacks_generated_text :: "jsval \<Rightarrow> bool" where
  "lacks_generated_text result \<longleftrightarrow>
     nullish (nested_text result) \<or> nested_text result = JStr []"

text \<open>A word is whitespace-only when each of its code units is white space.\<close>

definition whitespace_only :: "jsstring \<Rightarrow> bool" where
  "whitespace_only w \<longleftrightarrow> list_all WhiteSpace w"

text \<open>The fixed bodies of the error responses.\<close>

definition error_body :: "string \<Rightarrow> jsval" where
  "error_body msg = JObj [(js ''error'', JStr (js msg))]"

section \<open>Test doubles\<close>

text \<open>
  A double of the environment for the concrete runs below: it holds the credential
  \<open>key\<close>, settles every \<^verbatim>\<open>fetch\<close> with \<open>outcome\<close>, and parses the texts of \<open>table\<close>, each
  paired with the value that \<^verbatim>\<open>JSON.parse\<close> gives for it; any other text is a SyntaxError.
  The serialiser and the number printer, on which no run depends, are constant.
\<close>

definition mock_env :: "jsstring option \<Rightarrow> fetch_outcome \<Rightarrow> (jsstring \<times> jsval) list \<Rightarrow> env" where
  "mock_env key outcome table =
     \<lparr>GEMINI_API_KEY = key,
      fetch = (\<lambda>rq. outcome),
      JSON_parse = map_of table,
      JSON_stringify = (\<lambda>v. js ''{}''),
      Number_toString = (\<lambda>x. js ''0'')\<rparr>"

definition word_request :: "jsval \<Rightarrow> request" where
  "word_request v = \<lparr>req_body = JObj [(js ''germanWord'', v)]\<rparr>"

text \<open>A text as a JSON string literal (for texts without control characters).\<close>

definition json_quote :: "jsstring \<Rightarrow> jsstring" where
  "json_quote s =
     [0x22] @ concat (map (\<lambda>c. if c = 0x22 \<or> c = 0x5C then [0x5C, c] else [c]) s) @ [0x22]"

text \<open>The body of a reply of the external API around a generated text, and its value.\<close>

definition gemini_body :: "jsstring \<Rightarrow> jsstring" where
  \<open>gemini_body t =
     js ''{"candidates":[{"content":{"parts":[{"text":'' @ json_quote t @ js ''}]}}]}''\<close>

definition gemini_result :: "jsstring \<Rightarrow> jsval" where
  "gemini_result t = JObj
     [(js ''candidates'', JArr [JObj
        [(js ''content'', JObj [(js ''parts'', JArr [JObj [(js ''text'', JStr t)]])])]])]"

definition replied :: "nat \<Rightarrow> jsstring \<Rightarrow> fetch_outcome" where
  "replied s b = Replied \<lparr>reply_status = s, reply_body = Some b\<rparr>"

text \<open>The generated texts of the runs, and what they parse to.\<close>

definition haus_text :: jsstring where
  \<open>haus_text =
     js ''{"germanWord":"das Haus","englishTranslation":"the house","details":"die H'' @
     [0xE4] @ js ''user"}''\<close>

definition haus_fields :: "(jsstring \<times> jsval) list" where
  "haus_fields =
     [(js ''germanWord'', JStr (js ''das Haus'')),
      (js ''englishTranslation'', JStr (js ''the house'')),
      (js ''details'', JStr (js ''die H'' @ [0xE4] @ js ''user''))]"

definition laufen_text :: jsstring where
  \<open>laufen_text = js ''{"germanWord":"laufen","englishTranslation":"to run","details":""}''\<close>

definition laufen_fields :: "(jsstring \<times> jsval) list" where
  "laufen_fields =
     [(js ''germanWord'', JStr (js ''laufen'')),
      (js ''englishTranslation'', JStr (js ''to run'')),
      (js ''details'', JStr [])]"

text \<open>The environment in which the model generates the text \<open>t\<close>, parsed as \<open>parsed\<close>.\<close>

definition generating_env :: "jsstring \<Rightarrow> jsval option \<Rightarrow> env" where
  "generating_env t parsed =
     mock_env (Some (js ''secret'')) (replied 200 (gemini_body t))
       ((gemini_body t, gemini_result t) #
        (case parsed of None \<Rightarrow> [] | Some v \<Rightarrow> [(t, v)]))"

section \<open>Strings, values and the steps of the handler\<close>

lemma of_char_word_eq_iff: "(of_char c :: 16 word) = of_char d \<longleftrightarrow> c = d"
proof
  assume eq: "(of_char c :: 16 word) = of_char d"
  have lt: "(of_char x :: nat) < 2 ^ 16" for x
  proof -
    have "(of_char x :: nat) mod 256 = of_char x" by simp
    then have "(of_char x :: nat) < 256" by (metis mod_less_divisor zero_less_numeral)
    also have "(256 :: nat) < 2 ^ 16" by simp
    finally show ?thesis .
  qed
  from eq have "(word_of_nat (of_char c) :: 16 word) = word_of_nat (of_char d)"
    by (simp add: of_nat_of_char)
  then have "unat (word_of_nat (of_char c) :: 16 word) = unat (word_of_nat (of_char d) :: 16 word)"
    by simp
  then have "(of_char c :: nat) = of_char d"
    using lt [of c] lt [of d] by (simp add: unat_of_nat take_bit_nat_eq_self)
  then show "c = d" by simp
next
  assume "c = d" then show "(of_char c :: 16 word) = of_char d" by simp
qed

lemma js_eq_iff [simp]: "js a = js b \<longleftrightarrow> a = b"
  unfolding js_def using of_char_word_eq_iff by (simp add: inj_map_eq_map inj_def)

lemma js_Nil_iff [simp]: "js s = [] \<longleftrightarrow> s = []"
  by (simp add: js_def)

lemma length_js [simp]: "length (js s) = length s"
  by (simp add: js_def)

lemma and_then_Inr [simp]: "and_then (Inr v) f = f v"
  by (simp add: and_then_def)

lemma and_then_Inl [simp]: "and_then (Inl x) f = Inl x"
  by (simp add: and_then_def)

lemma truthy_not_nullish: "truthy v \<Longrightarrow> \<not> nullish v"
  by (cases v) simp_all

lemma get_prop_falsy: "\<not> truthy v \<Longrightarrow> get_prop v k = JUndefined"
  by (cases v) simp_all

lemma opt_member_nullish [simp]: "nullish v \<Longrightarrow> opt_member v k = JUndefined"
  by (simp add: opt_member_def)

lemma opt_index0_nullish [simp]: "nullish v \<Longrightarrow> opt_index0 v = JUndefined"
  by (simp add: opt_index0_def)

lemma opt_member_not_nullish: "\<not> nullish (opt_member v k) \<Longrightarrow> \<not> nullish v"
  by (auto simp: opt_member_def)

lemma opt_index0_not_nullish: "\<not> nullish (opt_index0 v) \<Longrightarrow> \<not> nullish v"
  by (auto simp: opt_index0_def)

lemma dropWhile_all_iff: "(\<forall>x\<in>set (dropWhile P w). P x) \<longleftrightarrow> dropWhile P w = []"
proof
  assume all: "\<forall>x\<in>set (dropWhile P w). P x"
  show "dropWhile P w = []"
  proof (rule ccontr)
    assume ne: "dropWhile P w \<noteq> []"
    then have "\<not> P (hd (dropWhile P w))" by (rule hd_dropWhile)
    moreover from ne have "hd (dropWhile P w) \<in> set (dropWhile P w)" by simp
    ultimately show False using all by blast
  qed
qed (auto dest: set_dropWhileD)

lemma trim_empty_iff: "trim w = [] \<longleftrightarrow> whitespace_only w"
  by (simp add: trim_def whitespace_only_def dropWhile_eq_Nil_conv dropWhile_all_iff list_all_iff)

text \<open>
  The guard of step 4 against the words of the specification: on a reply that is not
  \<^verbatim>\<open>null\<close>, the code rejects the structure exactly when the nested text is falsy, and
  otherwise reads that very text again.
\<close>

lemma lacks_generated_text_levels:
  "lacks_generated_text result \<longleftrightarrow>
     (let candidates = opt_member result (js ''candidates'');
          candidate = opt_index0 candidates;
          content = opt_member candidate (js ''content'');
          parts = opt_member content (js ''parts'');
          part = opt_index0 parts;
          text = opt_member part (js ''text'')
      in nullish candidates \<or> nullish candidate \<or> nullish content \<or> nullish parts \<or>
         nullish part \<or> nullish text \<or> text = JStr [])"
  by (auto simp: lacks_generated_text_def nested_text_def Let_def)

lemma first_candidate_Inr:
  "\<not> nullish result \<Longrightarrow>
   first_candidate result = Inr (opt_index0 (opt_member result (js ''candidates'')))"
  by (simp add: first_candidate_def member_def opt_member_def)


lemma invalid_structure_iff:
  assumes "c = opt_index0 (opt_member result (js ''candidates''))"
  shows "invalid_structure c \<longleftrightarrow> \<not> truthy (nested_text result)"
proof (cases "truthy c")
  case True
  then have "opt_member c (js ''content'') = get_prop c (js ''content'')"
    by (simp add: opt_member_def truthy_not_nullish)
  with True assms show ?thesis
    by (simp add: invalid_structure_def nested_text_def)
next
  case False
  then have "opt_member c (js ''content'') = JUndefined"
    by (simp add: opt_member_def get_prop_falsy)
  with False assms show ?thesis
    by (simp add: invalid_structure_def nested_text_def)
qed

lemma candidate_text_valid:
  assumes c: "c = opt_index0 (opt_member result (js ''candidates''))"
    and t: "truthy (nested_text result)"
  shows "candidate_text c = Inr (nested_text result)"
proof -
  let ?content = "opt_member c (js ''content'')"
  let ?parts = "opt_member ?content (js ''parts'')"
  let ?part = "opt_index0 ?parts"
  have nt: "nested_text result = opt_member ?part (js ''text'')"
    by (simp add: nested_text_def c)
  from t have n4: "\<not> nullish ?part"
    unfolding nt by (metis opt_member_nullish truthy.simps(1))
  then have n3: "\<not> nullish ?parts" by (rule opt_index0_not_nullish)
  then have n2: "\<not> nullish ?content" by (rule opt_member_not_nullish)
  then have n1: "\<not> nullish c" by (rule opt_member_not_nullish)
  from n1 have m1: "member c (js ''content'') = Inr ?content"
    by (simp add: member_def opt_member_def)
  from n2 have m2: "member ?content (js ''parts'') = Inr ?parts"
    by (simp add: member_def opt_member_def)
  from n3 have m3: "index0 ?parts = Inr ?part"
    by (simp add: index0_def opt_index0_def)
  from n4 have m4: "member ?part (js ''text'') = Inr (nested_text result)"
    by (simp add: member_def opt_member_def nt)
  show ?thesis
    by (simp add: candidate_text_def m1 m2 m3 m4)
qed


lemma extract_present:
  assumes "truthy (nested_text result)"
  shows "extract_and_build e result =
         (case parse_text e (nested_text result) of
            None \<Rightarrow> Inr (json_response 500 (JObj
                  [(js ''error'', JStr (js ''Failed to parse JSON from Gemini'')),
                   (js ''raw'', nested_text result)]))
          | Some parsedData \<Rightarrow> build_response e parsedData)"
proof -
  have "\<not> nullish result"
    using assms by (auto simp: nested_text_def)
  with assms show ?thesis
    by (simp add: extract_and_build_def first_candidate_Inr invalid_structure_iff
        candidate_text_valid)
qed

lemma before_fetch_valid:
  assumes "\<not> nullish (req_body req)"
    and "get_prop (req_body req) (js ''germanWord'') = JStr w"
    and "\<not> whitespace_only w"
    and "GEMINI_API_KEY e = Some apiKey" and "apiKey \<noteq> []"
  shows "before_fetch e req = CallFetch (api_request e apiKey (js ''German word: '' @ w))"
proof -
  from assms(3) have "trim w \<noteq> []" by (simp add: trim_empty_iff)
  moreover from this have "w \<noteq> []" by (auto simp: trim_def)
  ultimately have "invalid_input (JStr w) = Inr False"
    by (simp add: invalid_input_def)
  with assms show ?thesis
    by (simp add: before_fetch_def member_def userQuery_def)
qed

lemma translate_replied_ok:
  assumes "before_fetch e req = CallFetch rq"
    and "fetch e rq = Replied r" and "ok r"
    and "reply_body r = Some b" and "JSON_parse e b = Some result"
  shows "translate_try e req = ([rq], extract_and_build e result)"
  using assms by (simp add: translate_try_def after_fetch_def reply_json_def)

lemma translate_of_try_Inr:
  "translate_try e req = (calls, Inr r) \<Longrightarrow> translate e req = (calls, r)"
  by (simp add: translate_def)

lemma translate_of_try_Inl:
  "translate_try e req = (calls, Inl x) \<Longrightarrow>
   translate e req = (calls, json_response 500 (error_body ''Internal server error''))"
  by (simp add: translate_def error_body_def)

lemma build_response_strings:
  assumes "map_of kvs (js ''germanWord'') = Some g"
    and "map_of kvs (js ''details'') = Some d"
    and "ToString e g = Inr gs" and "ToString e d = Inr ds"
  shows "build_response e (JObj kvs) =
         Inr (json_response 200 (JObj
           [(js ''german'', JStr (gs @ [0xA, 0xA] @ js ''('' @ ds @ js '')'')),
            (js ''english'', get_prop (JObj kvs) (js ''englishTranslation'')),
            (js ''raw'', JObj kvs)]))"
  using assms by (simp add: build_response_def member_def)

lemma build_response_general:
  assumes "\<not> nullish parsedData"
    and "ToString e (get_prop parsedData (js ''germanWord'')) = Inr gs"
    and "ToString e (get_prop parsedData (js ''details'')) = Inr ds"
  shows "build_response e parsedData =
         Inr (json_response 200 (JObj
           [(js ''german'', JStr (gs @ [0xA, 0xA] @ js ''('' @ ds @ js '')'')),
            (js ''english'', get_prop parsedData (js ''englishTranslation'')),
            (js ''raw'', parsedData)]))"
  using assms by (simp add: build_response_def member_def)

text \<open>
  A field that is an object with an own property \<^verbatim>\<open>toString\<close> cannot be put into the
  template literal of step 5.
\<close>

lemma build_response_own_toString:
  "build_response e (JObj [(js ''germanWord'', JObj [(js ''toString'', JNum 1)])]) = Inl TypeError"
  by (simp add: build_response_def member_def)

lemma translate_parsed:
  assumes "\<not> nullish (req_body req)"
    and "get_prop (req_body req) (js ''germanWord'') = JStr w"
    and "\<not> whitespace_only w"
    and "GEMINI_API_KEY e = Some apiKey" and "apiKey \<noteq> []"
    and "fetch e (api_request e apiKey (js ''German word: '' @ w)) = Replied r"
    and "ok r" and "reply_body r = Some b" and "JSON_parse e b = Some result"
    and "has_generated_text result t"
    and "JSON_parse e t = Some parsedData"
  shows "translate_try e req =
         ([api_request e apiKey (js ''German word: '' @ w)], build_response e parsedData)"
proof -
  let ?rq = "api_request e apiKey (js ''German word: '' @ w)"
  have bf: "before_fetch e req = CallFetch ?rq"
    using assms(1-5) by (rule before_fetch_valid)
  have tr: "translate_try e req = ([?rq], extract_and_build e result)"
    using bf assms(6-9) by (rule translate_replied_ok)
  from assms(10) have nt: "nested_text result = JStr t" and "t \<noteq> []"
    by (simp_all add: has_generated_text_def)
  then have "truthy (nested_text result)" by simp
  then have "extract_and_build e result = build_response e parsedData"
    using assms(11) by (simp add: extract_present nt parse_text_def)
  with tr show ?thesis by simp
qed

subsection \<open>The test doubles\<close>

lemma length_json_quote: "length t < length (json_quote t)"
proof -
  have "length t \<le> length (concat (map (\<lambda>c. if c = 0x22 \<or> c = 0x5C then [0x5C, c] else [c]) t))"
    by (induction t) auto
  then show ?thesis by (simp add: json_quote_def)
qed

lemma gemini_body_neq: "t \<noteq> gemini_body t"
proof
  assume "t = gemini_body t"
  then have "length t = length (gemini_body t)" by simp
  then show False using length_json_quote [of t] by (simp add: gemini_body_def)
qed

lemma nested_text_gemini_result: "nested_text (gemini_result t) = JStr t"
  by (simp add: nested_text_def gemini_result_def opt_member_def opt_index0_def)

lemma has_generated_text_gemini_result:
  "t \<noteq> [] \<Longrightarrow> has_generated_text (gemini_result t) t"
  by (simp add: has_generated_text_def nested_text_gemini_result)

lemma mock_env_simps:
  "GEMINI_API_KEY (mock_env k out tb) = k"
  "fetch (mock_env k out tb) rq = out"
  "JSON_parse (mock_env k out tb) = map_of tb"
  by (simp_all add: mock_env_def)

lemma generating_env_simps:
  "GEMINI_API_KEY (generating_env t p) = Some (js ''secret'')"
  "fetch (generating_env t p) rq = replied 200 (gemini_body t)"
  "JSON_parse (generating_env t p) (gemini_body t) = Some (gemini_result t)"
  "JSON_parse (generating_env t p) t = p"
  using gemini_body_neq [of t]
  by (auto simp: generating_env_def mock_env_def split: option.splits)

lemma word_request_simps:
  "\<not> nullish (req_body (word_request v))"
  "get_prop (req_body (word_request v)) (js ''germanWord'') = v"
  by (simp_all add: word_request_def)

lemma haus_not_whitespace: "\<not> whitespace_only (js ''Haus'')"
  by (simp add: whitespace_only_def js_def WhiteSpace_def)

section \<open>The claims\<close>

text \<open>
  Claim C1. For a request with a well-formed \<^verbatim>\<open>germanWord\<close>, a 2xx reply that contains the
  nested generated text, and a text that parses as an object with the string fields
  \<^verbatim>\<open>germanWord\<close>, \<^verbatim>\<open>englishTranslation\<close> and \<^verbatim>\<open>details\<close>, the handler answers 200 with
  \<^verbatim>\<open>german\<close> the parsed word, two newlines and the details in parentheses, \<^verbatim>\<open>english\<close> the
  parsed translation, and \<^verbatim>\<open>raw\<close> the parsed object.
\<close>

theorem translate_success:
  assumes "\<not> nullish (req_body req)"
    and "get_prop (req_body req) (js ''germanWord'') = JStr w"
    and "\<not> whitespace_only w"
    and "GEMINI_API_KEY e = Some apiKey" and "apiKey \<noteq> []"
    and "fetch e (api_request e apiKey (js ''German word: '' @ w)) = Replied r"
    and "ok r" and "reply_body r = Some b" and "JSON_parse e b = Some result"
    and "has_generated_text result t"
    and "JSON_parse e t = Some (JObj kvs)"
    and "map_of kvs (js ''germanWord'') = Some (JStr germanWord)"
    and "map_of kvs (js ''englishTranslation'') = Some (JStr englishTranslation)"
    and "map_of kvs (js ''details'') = Some (JStr details)"
  shows "translate e req =
         ([api_request e apiKey (js ''German word: '' @ w)],
          json_response 200 (JObj
            [(js ''german'', JStr (germanWord @ [0xA, 0xA] @ js ''('' @ details @ js '')'')),
             (js ''english'', JStr englishTranslation),
             (js ''raw'', JObj kvs)]))"
proof -
  let ?rq = "api_request e apiKey (js ''German word: '' @ w)"
  have bf: "before_fetch e req = CallFetch ?rq"
    using assms(1-5) by (rule before_fetch_valid)
  have tr: "translate_try e req = ([?rq], extract_and_build e result)"
    using bf assms(6-9) by (rule translate_replied_ok)
  from assms(10) have nt: "nested_text result = JStr t" and "t \<noteq> []"
    by (simp_all add: has_generated_text_def)
  then have "truthy (nested_text result)" by simp
  then have "extract_and_build e result = build_response e (JObj kvs)"
    using assms(11) by (simp add: extract_present nt parse_text_def)
  also have "\<dots> = Inr (json_response 200 (JObj
            [(js ''german'', JStr (germanWord @ [0xA, 0xA] @ js ''('' @ details @ js '')'')),
             (js ''english'', JStr englishTranslation),
             (js ''raw'', JObj kvs)]))"
    using assms(12-14) by (simp add: build_response_strings)
  finally show ?thesis
    using tr by (simp add: translate_of_try_Inr)
qed

theorem translate_success_witness:
  "translate (generating_env haus_text (Some (JObj haus_fields))) (word_request (JStr (js ''Haus''))) =
     ([api_request (generating_env haus_text (Some (JObj haus_fields))) (js ''secret'')
         (js ''German word: '' @ js ''Haus'')],
      json_response 200 (JObj
        [(js ''german'', JStr (js ''das Haus'' @ [0xA, 0xA] @ js ''('' @
            (js ''die H'' @ [0xE4] @ js ''user'') @ js '')'')),
         (js ''english'', JStr (js ''the house'')),
         (js ''raw'', JObj haus_fields)]))"
proof (rule translate_success [where r = "\<lparr>reply_status = 200, reply_body = Some (gemini_body haus_text)\<rparr>"
      and b = "gemini_body haus_text" and result = "gemini_result haus_text" and t = haus_text])
  show "\<not> nullish (req_body (word_request (JStr (js ''Haus''))))"
    by (simp add: word_request_def)
  show "get_prop (req_body (word_request (JStr (js ''Haus'')))) (js ''germanWord'') = JStr (js ''Haus'')"
    by (simp add: word_request_def)
  show "\<not> whitespace_only (js ''Haus'')"
    by (simp add: whitespace_only_def js_def WhiteSpace_def)
  show "has_generated_text (gemini_result haus_text) haus_text"
    by (simp add: has_generated_text_def nested_text_gemini_result haus_text_def)
qed (simp_all add: generating_env_simps replied_def ok_def haus_fields_def js_def)




text \<open>
  Claim C3. With a valid \<^verbatim>\<open>germanWord\<close> and no \<^verbatim>\<open>GEMINI_API_KEY\<close>, the handler answers 500 with
  the body \<^verbatim>\<open>{error: "Server misconfiguration: API key missing"}\<close> and issues no external
  call.
\<close>

theorem translate_missing_key:
  assumes "\<not> nullish (req_body req)"
    and "get_prop (req_body req) (js ''germanWord'') = JStr w"
    and "\<not> whitespace_only w"
    and "GEMINI_API_KEY e = None"
  shows "translate e req =
         ([], json_response 500 (error_body ''Server misconfiguration: API key missing''))"
proof -
  from assms(3) have "trim w \<noteq> []" by (simp add: trim_empty_iff)
  moreover from this have "w \<noteq> []" by (auto simp: trim_def)
  ultimately have "invalid_input (JStr w) = Inr False"
    by (simp add: invalid_input_def)
  with assms have "before_fetch e req =
      Finished (Inr (json_response 500 (error_body ''Server misconfiguration: API key missing'')))"
    by (simp add: before_fetch_def member_def userQuery_def error_body_def)
  then show ?thesis
    by (simp add: translate_def translate_try_def)
qed

theorem translate_missing_key_witness:
  "translate (mock_env None Rejected []) (word_request (JStr (js ''Haus''))) =
     ([], json_response 500 (error_body ''Server misconfiguration: API key missing''))"
  by (rule translate_missing_key [where w = "js ''Haus''"])
     (simp_all add: word_request_simps haus_not_whitespace mock_env_simps)

text \<open>
  Claim C4. A reply with a status \<open>S\<close> outside 200..299 is answered with status \<open>S\<close> and a
  body of the fields \<^verbatim>\<open>error\<close>, \<^verbatim>\<open>status\<close> (equal to \<open>S\<close>) and \<^verbatim>\<open>details\<close> (the text of the
  reply's body); so a 429 is answered with 429 and \<^verbatim>\<open>status: 429\<close>.
\<close>

theorem translate_upstream_failure:
  assumes "\<not> nullish (req_body req)"
    and "get_prop (req_body req) (js ''germanWord'') = JStr w"
    and "\<not> whitespace_only w"
    and "GEMINI_API_KEY e = Some apiKey" and "apiKey \<noteq> []"
    and "fetch e (api_request e apiKey (js ''German word: '' @ w)) = Replied r"
    and "\<not> ok r" and "reply_body r = Some errorText"
  shows "translate e req =
         ([api_request e apiKey (js ''German word: '' @ w)],
          json_response (reply_status r) (JObj
            [(js ''error'', JStr (js ''Gemini API call failed'')),
             (js ''status'', JNum (of_nat (reply_status r))),
             (js ''details'', JStr errorText)]))"
proof -
  have "before_fetch e req = CallFetch (api_request e apiKey (js ''German word: '' @ w))"
    using assms(1-5) by (rule before_fetch_valid)
  with assms(6-8) show ?thesis
    by (simp add: translate_def translate_try_def after_fetch_def)
qed

theorem translate_upstream_failure_witness:
  "translate (mock_env (Some (js ''secret'')) (replied 429 (js ''quota exceeded'')) [])
       (word_request (JStr (js ''Haus''))) =
     ([api_request (mock_env (Some (js ''secret'')) (replied 429 (js ''quota exceeded'')) [])
         (js ''secret'') (js ''German word: '' @ js ''Haus'')],
      json_response 429 (JObj
        [(js ''error'', JStr (js ''Gemini API call failed'')),
         (js ''status'', JNum 429),
         (js ''details'', JStr (js ''quota exceeded''))]))"
  using translate_upstream_failure
    [where e = "mock_env (Some (js ''secret'')) (replied 429 (js ''quota exceeded'')) []"
       and req = "word_request (JStr (js ''Haus''))" and w = "js ''Haus''"
       and apiKey = "js ''secret''"
       and r = "\<lparr>reply_status = 429, reply_body = Some (js ''quota exceeded'')\<rparr>"
       and errorText = "js ''quota exceeded''"]
  by (simp add: word_request_simps haus_not_whitespace mock_env_simps replied_def ok_def)




text \<open>
  Claim C6. For a 2xx reply whose nested generated text is present and does not parse as
  JSON, the handler answers 500 with a body of an \<^verbatim>\<open>error\<close> field and a \<^verbatim>\<open>raw\<close> field equal to
  the generated text, unchanged.
\<close>

theorem translate_unparsable_text:
  assumes "\<not> nullish (req_body req)"
    and "get_prop (req_body req) (js ''germanWord'') = JStr w"
    and "\<not> whitespace_only w"
    and "GEMINI_API_KEY e = Some apiKey" and "apiKey \<noteq> []"
    and "fetch e (api_request e apiKey (js ''German word: '' @ w)) = Replied r"
    and "ok r" and "reply_body r = Some b" and "JSON_parse e b = Some result"
    and "has_generated_text result t"
    and "JSON_parse e t = None"
  shows "translate e req =
         ([api_request e apiKey (js ''German word: '' @ w)],
          json_response 500 (JObj
            [(js ''error'', JStr (js ''Failed to parse JSON from Gemini'')),
             (js ''raw'', JStr t)]))"
proof -
  let ?rq = "api_request e apiKey (js ''German word: '' @ w)"
  have bf: "before_fetch e req = CallFetch ?rq"
    using assms(1-5) by (rule before_fetch_valid)
  have tr: "translate_try e req = ([?rq], extract_and_build e result)"
    using bf assms(6-9) by (rule translate_replied_ok)
  from assms(10) have nt: "nested_text result = JStr t" and "t \<noteq> []"
    by (simp_all add: has_generated_text_def)
  then have "truthy (nested_text result)" by simp
  then have "extract_and_build e result = Inr (json_response 500 (JObj
            [(js ''error'', JStr (js ''Failed to parse JSON from Gemini'')),
             (js ''raw'', JStr t)]))"
    using assms(11) by (simp add: extract_present nt parse_text_def)
  with tr show ?thesis
    by (simp add: translate_of_try_Inr)
qed

theorem translate_unparsable_text_witness:
  "translate (generating_env (js ''not json'') None) (word_request (JStr (js ''Haus''))) =
     ([api_request (generating_env (js ''not json'') None) (js ''secret'')
         (js ''German word: '' @ js ''Haus'')],
      json_response 500 (JObj
        [(js ''error'', JStr (js ''Failed to parse JSON from Gemini'')),
         (js ''raw'', JStr (js ''not json''))]))"
  by (rule translate_unparsable_text
        [where r = "\<lparr>reply_status = 200, reply_body = Some (gemini_body (js ''not json''))\<rparr>"
           and b = "gemini_body (js ''not json'')" and result = "gemini_result (js ''not json'')"])
     (simp_all add: word_request_simps haus_not_whitespace generating_env_simps replied_def ok_def
        has_generated_text_gemini_result)

text \<open>
  Claim C7. Whenever the try block throws, which is every failure other than the ones it
  answers itself, the handler catches the exception and answers 500 with the body
  \<^verbatim>\<open>{error: "Internal server error"}\<close>; the handler itself never throws, being a total
  function into responses.
\<close>

theorem translate_catch_all:
  assumes "snd (translate_try e req) = Inl err"
  shows "translate e req =
         (fst (translate_try e req), json_response 500 (error_body ''Internal server error''))"
  using assms by (cases "translate_try e req") (simp add: translate_of_try_Inl)

theorem translate_catch_all_witness:
  "translate (mock_env (Some (js ''secret'')) Rejected []) (word_request (JStr (js ''Haus''))) =
     ([api_request (mock_env (Some (js ''secret'')) Rejected []) (js ''secret'')
         (js ''German word: '' @ js ''Haus'')],
      json_response 500 (error_body ''Internal server error''))"
proof -
  let ?e = "mock_env (Some (js ''secret'')) Rejected []"
  let ?rq = "api_request ?e (js ''secret'') (js ''German word: '' @ js ''Haus'')"
  have "before_fetch ?e (word_request (JStr (js ''Haus''))) = CallFetch ?rq"
    by (rule before_fetch_valid)
       (simp_all add: word_request_simps haus_not_whitespace mock_env_simps)
  then have "translate_try ?e (word_request (JStr (js ''Haus''))) = ([?rq], Inl FetchError)"
    by (simp add: translate_try_def after_fetch_def mock_env_simps)
  then show ?thesis
    using translate_catch_all [of ?e "word_request (JStr (js ''Haus''))" FetchError] by simp
qed

text \<open>
  Claim C8. When \<^verbatim>\<open>germanWord\<close> is truthy and not a string (a number, an object), the
  falsiness test passes, \<^verbatim>\<open>germanWord.trim()\<close> throws, and the handler answers 500 with
  \<^verbatim>\<open>{error: "Internal server error"}\<close>, not the 400 of the validation, before any external
  call.
\<close>

theorem translate_non_string_word:
  assumes "\<not> nullish (req_body req)"
    and "truthy (get_prop (req_body req) (js ''germanWord''))"
    and "\<forall>s. get_prop (req_body req) (js ''germanWord'') \<noteq> JStr s"
  shows "translate e req = ([], json_response 500 (error_body ''Internal server error'')) \<and>
         before_fetch e req \<noteq>
           Finished (Inr (json_response 400 (error_body ''germanWord is required'')))"
proof -
  have "call_trim (get_prop (req_body req) (js ''germanWord'')) = Inl TypeError"
    using assms(3) by (cases "get_prop (req_body req) (js ''germanWord'')") simp_all
  with assms(2) have "invalid_input (get_prop (req_body req) (js ''germanWord'')) = Inl TypeError"
    by (simp add: invalid_input_def)
  with assms(1) have "before_fetch e req = Finished (Inl TypeError)"
    by (simp add: before_fetch_def member_def)
  then show ?thesis
    by (simp add: translate_def translate_try_def error_body_def)
qed

theorem translate_non_string_word_witness:
  "translate (mock_env (Some (js ''secret'')) Rejected []) (word_request (JNum 5)) =
     ([], json_response 500 (error_body ''Internal server error'')) \<and>
   before_fetch (mock_env (Some (js ''secret'')) Rejected []) (word_request (JNum 5)) \<noteq>
     Finished (Inr (json_response 400 (error_body ''germanWord is required'')))"
  by (rule translate_non_string_word) (simp_all add: word_request_simps)

text \<open>
  Claim C9, as amended. Once the generated text has parsed to a value other than \<^verbatim>\<open>null\<close>,
  nothing checks the three fields: whenever \<^verbatim>\<open>germanWord\<close> and \<^verbatim>\<open>details\<close> of the parsed value
  convert to strings (as every missing field, string, number and boolean does), the handler
  answers 200, a missing one of the two rendered as \<^verbatim>\<open>undefined\<close> inside \<^verbatim>\<open>german\<close>, with
  \<^verbatim>\<open>english\<close> the parsed \<^verbatim>\<open>englishTranslation\<close>, \<^verbatim>\<open>undefined\<close> when that is missing.
\<close>

theorem translate_unvalidated_fields:
  assumes "\<not> nullish (req_body req)"
    and "get_prop (req_body req) (js ''germanWord'') = JStr w"
    and "\<not> whitespace_only w"
    and "GEMINI_API_KEY e = Some apiKey" and "apiKey \<noteq> []"
    and "fetch e (api_request e apiKey (js ''German word: '' @ w)) = Replied r"
    and "ok r" and "reply_body r = Some b" and "JSON_parse e b = Some result"
    and "has_generated_text result t"
    and "JSON_parse e t = Some parsedData"
    and "parsedData \<noteq> JNull" and "parsedData \<noteq> JUndefined"
    and "ToString e (get_prop parsedData (js ''germanWord'')) = Inr gs"
    and "ToString e (get_prop parsedData (js ''details'')) = Inr ds"
  shows "translate e req =
           ([api_request e apiKey (js ''German word: '' @ w)],
            json_response 200 (JObj
              [(js ''german'', JStr (gs @ [0xA, 0xA] @ js ''('' @ ds @ js '')'')),
               (js ''english'', get_prop parsedData (js ''englishTranslation'')),
               (js ''raw'', parsedData)])) \<and>
         (get_prop parsedData (js ''germanWord'') = JUndefined \<longrightarrow> gs = js ''undefined'') \<and>
         (get_prop parsedData (js ''details'') = JUndefined \<longrightarrow> ds = js ''undefined'')"
proof -
  have tr: "translate_try e req =
      ([api_request e apiKey (js ''German word: '' @ w)], build_response e parsedData)"
    using assms(1-11) by (rule translate_parsed)
  have "\<not> nullish parsedData"
    using assms(12,13) by (cases parsedData) simp_all
  then have "build_response e parsedData =
         Inr (json_response 200 (JObj
           [(js ''german'', JStr (gs @ [0xA, 0xA] @ js ''('' @ ds @ js '')'')),
            (js ''english'', get_prop parsedData (js ''englishTranslation'')),
            (js ''raw'', parsedData)]))"
    using assms(14,15) by (rule build_response_general)
  with tr have "translate e req =
           ([api_request e apiKey (js ''German word: '' @ w)],
            json_response 200 (JObj
              [(js ''german'', JStr (gs @ [0xA, 0xA] @ js ''('' @ ds @ js '')'')),
               (js ''english'', get_prop parsedData (js ''englishTranslation'')),
               (js ''raw'', parsedData)]))"
    by (simp add: translate_of_try_Inr)
  moreover have "get_prop parsedData (js ''germanWord'') = JUndefined \<longrightarrow> gs = js ''undefined''"
    using assms(14) by auto
  moreover have "get_prop parsedData (js ''details'') = JUndefined \<longrightarrow> ds = js ''undefined''"
    using assms(15) by auto
  ultimately show ?thesis by simp
qed

theorem translate_unvalidated_fields_witness:
  "translate (generating_env (js ''{}'') (Some (JObj []))) (word_request (JStr (js ''Haus''))) =
     ([api_request (generating_env (js ''{}'') (Some (JObj []))) (js ''secret'')
         (js ''German word: '' @ js ''Haus'')],
      json_response 200 (JObj
        [(js ''german'', JStr (js ''undefined'' @ [0xA, 0xA] @ js ''('' @ js ''undefined'' @ js '')'')),
         (js ''english'', JUndefined),
         (js ''raw'', JObj [])]))"
  using translate_unvalidated_fields
    [where e = "generating_env (js ''{}'') (Some (JObj []))"
       and req = "word_request (JStr (js ''Haus''))" and w = "js ''Haus''"
       and apiKey = "js ''secret''"
       and r = "\<lparr>reply_status = 200, reply_body = Some (gemini_body (js ''{}''))\<rparr>"
       and b = "gemini_body (js ''{}'')" and result = "gemini_result (js ''{}'')"
       and t = "js ''{}''" and parsedData = "JObj []"
       and gs = "js ''undefined''" and ds = "js ''undefined''"]
  by (simp add: word_request_simps haus_not_whitespace generating_env_simps replied_def ok_def
        has_generated_text_gemini_result)

text \<open>
  The claim as first stated covers every parsed value that lacks the fields, so also
  \<^verbatim>\<open>null\<close>, the value of the text \<^verbatim>\<open>null\<close>: there \<^verbatim>\<open>parsedData.germanWord\<close> throws, and the
  answer is 500.
\<close>

theorem translate_unvalidated_fields_counterexample:
  "JSON_parse (generating_env (js ''null'') (Some JNull)) (js ''null'') = Some JNull \<and>
   get_prop JNull (js ''germanWord'') = JUndefined \<and>
   translate (generating_env (js ''null'') (Some JNull)) (word_request (JStr (js ''Haus''))) =
     ([api_request (generating_env (js ''null'') (Some JNull)) (js ''secret'')
         (js ''German word: '' @ js ''Haus'')],
      json_response 500 (error_body ''Internal server error'')) \<and>
   res_status (json_response 500 (error_body ''Internal server error'')) \<noteq> 200"
proof -
  let ?e = "generating_env (js ''null'') (Some JNull)"
  let ?rq = "api_request ?e (js ''secret'') (js ''German word: '' @ js ''Haus'')"
  have "translate_try ?e (word_request (JStr (js ''Haus''))) = ([?rq], build_response ?e JNull)"
    by (rule translate_parsed
          [where r = "\<lparr>reply_status = 200, reply_body = Some (gemini_body (js ''null''))\<rparr>"
             and b = "gemini_body (js ''null'')" and result = "gemini_result (js ''null'')"
             and t = "js ''null''"])
       (simp_all add: word_request_simps haus_not_whitespace generating_env_simps replied_def
          ok_def has_generated_text_gemini_result)
  then have "translate_try ?e (word_request (JStr (js ''Haus''))) = ([?rq], Inl TypeError)"
    by (simp add: build_response_def member_def)
  then have "translate ?e (word_request (JStr (js ''Haus''))) =
      ([?rq], json_response 500 (error_body ''Internal server error''))"
    by (rule translate_of_try_Inl)
  then show ?thesis
    by (simp add: generating_env_simps json_response_def)
qed

text \<open>
  Claim C10. The details are concatenated unconditionally: when the parsed \<^verbatim>\<open>details\<close> is the
  empty string, the handler answers 200 with \<^verbatim>\<open>german\<close> the parsed word, two newlines and
  empty parentheses.
\<close>

theorem translate_empty_details:
  assumes "\<not> nullish (req_body req)"
    and "get_prop (req_body req) (js ''germanWord'') = JStr w"
    and "\<not> whitespace_only w"
    and "GEMINI_API_KEY e = Some apiKey" and "apiKey \<noteq> []"
    and "fetch e (api_request e apiKey (js ''German word: '' @ w)) = Replied r"
    and "ok r" and "reply_body r = Some b" and "JSON_parse e b = Some result"
    and "has_generated_text result t"
    and "JSON_parse e t = Some (JObj kvs)"
    and "map_of kvs (js ''germanWord'') = Some (JStr germanWord)"
    and "map_of kvs (js ''details'') = Some (JStr [])"
  shows "translate e req =
         ([api_request e apiKey (js ''German word: '' @ w)],
          json_response 200 (JObj
            [(js ''german'', JStr (germanWord @ [0xA, 0xA] @ js ''()'')),
             (js ''english'', get_prop (JObj kvs) (js ''englishTranslation'')),
             (js ''raw'', JObj kvs)]))"
proof -
  have tr: "translate_try e req =
      ([api_request e apiKey (js ''German word: '' @ w)], build_response e (JObj kvs))"
    using assms(1-11) by (rule translate_parsed)
  have "build_response e (JObj kvs) =
         Inr (json_response 200 (JObj
           [(js ''german'', JStr (germanWord @ [0xA, 0xA] @ js ''('' @ [] @ js '')'')),
            (js ''english'', get_prop (JObj kvs) (js ''englishTranslation'')),
            (js ''raw'', JObj kvs)]))"
    using assms(12,13) by (simp add: build_response_strings)
  moreover have "js ''('' @ [] @ js '')'' = js ''()''"
    by (simp add: js_def)
  ultimately show ?thesis
    using tr by (simp add: translate_of_try_Inr)
qed

theorem translate_empty_details_witness:
  "translate (generating_env laufen_text (Some (JObj laufen_fields)))
       (word_request (JStr (js ''Haus''))) =
     ([api_request (generating_env laufen_text (Some (JObj laufen_fields))) (js ''secret'')
         (js ''German word: '' @ js ''Haus'')],
      json_response 200 (JObj
        [(js ''german'', JStr (js ''laufen'' @ [0xA, 0xA] @ js ''()'')),
         (js ''english'', JStr (js ''to run'')),
         (js ''raw'', JObj laufen_fields)]))"
  using translate_empty_details
    [where e = "generating_env laufen_text (Some (JObj laufen_fields))"
       and req = "word_request (JStr (js ''Haus''))" and w = "js ''Haus''"
       and apiKey = "js ''secret''"
       and r = "\<lparr>reply_status = 200, reply_body = Some (gemini_body laufen_text)\<rparr>"
       and b = "gemini_body laufen_text" and result = "gemini_result laufen_text"
       and t = laufen_text and kvs = laufen_fields and germanWord = "js ''laufen''"]
  by (simp add: word_request_simps haus_not_whitespace generating_env_simps replied_def ok_def
        has_generated_text_gemini_result laufen_fields_def laufen_text_def)

end
